theory Spec2Isabelle
  imports Main "HOL-Library.Word" "HOL-Library.List_Lexorder" "HOL-Library.Multiset"
begin

section \<open>The image route of r2-demo: upload action and gallery loader\<close>

text \<open>
  The development embeds \<^verbatim>\<open>src/app/routes/images.tsx\<close>: the \<^verbatim>\<open>action\<close> that uploads
  an image to R2, reads it back, asks the AI binding for a description and inserts a row
  into D1, and the \<^verbatim>\<open>loader\<close> that lists the rows. R2, \<^verbatim>\<open>fetch\<close>, the AI binding and
  D1 are outside the repository: each call to them is recorded in a trace, and whether it
  resolves or throws is read from a record of outcomes, one per call site.
\<close>

subsection \<open>JavaScript strings\<close>

text \<open>
  A JavaScript string is a sequence of UTF-16 code units, and a regular expression without
  the \<^verbatim>\<open>u\<close> flag matches code unit by code unit.
\<close>

type_synonym jschar = "16 word"
type_synonym jsstring = "jschar list"
type_synonym byte = "8 word"

definition ascii :: "string \<Rightarrow> jsstring" where
  "ascii s = map (\<lambda>c. of_nat (of_char c)) s"

text \<open>
  The class \<^verbatim>\<open>\s\<close> of ECMAScript: the WhiteSpace and LineTerminator code points
  (tab, line feed, vertical tab, form feed, carriage return, space, no-break space,
  U+1680, U+2000 to U+200A, U+2028, U+2029, U+202F, U+205F, U+3000, U+FEFF).
\<close>

definition is_space :: "jschar \<Rightarrow> bool" where
  "is_space c \<longleftrightarrow>
     c \<in> {0x09, 0x0A, 0x0B, 0x0C, 0x0D, 0x20, 0xA0, 0x1680,
          0x2028, 0x2029, 0x202F, 0x205F, 0x3000, 0xFEFF}
     \<or> (0x2000 \<le> c \<and> c \<le> 0x200A)"

definition hyphen :: jschar where
  "hyphen = 0x2D"

text \<open>
  \<^verbatim>\<open>name.replace(/\s+/g, "-")\<close>: scanning from the left, the greedy \<^verbatim>\<open>\s+\<close> takes a
  whole run of white space, which becomes one hyphen; every other code unit is kept.
\<close>

function replace_ws :: "jsstring \<Rightarrow> jsstring" where
  "replace_ws [] = []"
| "replace_ws (c # cs) =
     (if is_space c then hyphen # replace_ws (dropWhile is_space cs)
      else c # replace_ws cs)"
  by pat_completeness auto
termination
  by (relation "measure length") (auto simp: less_Suc_eq_le length_dropWhile_le)

text \<open>
  \<^verbatim>\<open>${Date.now()}\<close>: \<^verbatim>\<open>Date.now()\<close> is an integer number of milliseconds, of magnitude at
  most 8.64e15, and a template literal renders such a number in decimal, with a leading
  minus sign when it is negative.
\<close>

definition digit :: "nat \<Rightarrow> jschar" where
  "digit d = 0x30 + of_nat d"

function dec :: "nat \<Rightarrow> jsstring" where
  "dec n = (if n < 10 then [digit n] else dec (n div 10) @ [digit (n mod 10)])"
  by pat_completeness auto
termination
  by (relation "measure (\<lambda>n. n)") auto

declare dec.simps [simp del]

definition number_to_string :: "int \<Rightarrow> jsstring" where
  "number_to_string i = (if i < 0 then hyphen # dec (nat (- i)) else dec (nat i))"

text \<open>Line 57: \<^verbatim>\<open>key = `images/${Date.now()}-${image.name.replace(/\s+/g, "-")}`\<close>.\<close>

definition store_key :: "int \<Rightarrow> jsstring \<Rightarrow> jsstring" where
  "store_key now nm = ascii ''images/'' @ number_to_string now @ ascii ''-'' @ replace_ws nm"

subsection \<open>Values of the route\<close>

text \<open>A thrown value is an \<^verbatim>\<open>Error\<close> with its message, or anything else.\<close>

datatype js_error = JsError jsstring | JsNonError

text \<open>\<^verbatim>\<open>error instanceof Error ? error.message : fallback\<close>\<close>

fun error_message :: "js_error \<Rightarrow> jsstring \<Rightarrow> jsstring" where
  "error_message (JsError m) fallback = m"
| "error_message JsNonError fallback = fallback"

record js_file =
  file_name :: jsstring
  file_type :: jsstring
  file_bytes :: "byte list"

text \<open>
  \<^verbatim>\<open>formData.get("image")\<close> is a file, a string, or \<^verbatim>\<open>null\<close> when the form has no
  such field; the cast \<^verbatim>\<open>as File\<close> checks nothing at run time.
\<close>

datatype form_value = FormNull | FormString jsstring | FormFile js_file

datatype request = FormDataThrows js_error | FormDataOk form_value

text \<open>The row type \<^verbatim>\<open>Image\<close> (lines 14 to 20) and the table of the migration.\<close>

record image =
  image_id :: nat
  url :: jsstring
  name :: jsstring
  description :: "jsstring option"
  created_at :: jsstring

record fetch_response =
  ok :: bool
  statusText :: jsstring
  arrayBuffer :: "js_error + byte list"

datatype console_arg = ArgString jsstring | ArgError js_error

datatype event =
    R2Put jsstring "byte list" jsstring
  | R2Delete jsstring
  | Fetch jsstring
  | AiRun "byte list"
  | DbInsert jsstring jsstring "jsstring option"
  | DbSelectAll
  | ConsoleLog jsstring console_arg
  | ConsoleError jsstring js_error

text \<open>
  What the outside does at each call site of one request: \<open>None\<close> or \<open>Inr\<close> when the
  call resolves, an error when it throws. \<open>ai_outcome\<close> is \<^verbatim>\<open>response.description\<close>
  of the resolved call, which may be \<^verbatim>\<open>undefined\<close>; a response that has no properties
  to read throws inside the same \<^verbatim>\<open>try\<close> and counts as a call that throws.
  \<open>current_timestamp\<close> is D1's
  \<^verbatim>\<open>CURRENT_TIMESTAMP\<close> at the insert, and \<open>type_error_text\<close> the engine's message for
  reading a property of \<^verbatim>\<open>null\<close> or \<^verbatim>\<open>undefined\<close>.
\<close>

record outcomes =
  put_outcome :: "js_error option"
  fetch_outcome :: "js_error + fetch_response"
  ai_outcome :: "js_error + jsstring option"
  insert_outcome :: "js_error + bool"
  delete_outcome :: "js_error option"
  select_outcome :: "js_error option"
  current_timestamp :: jsstring
  type_error_text :: jsstring

text \<open>
  The world: the R2 bucket, the \<^verbatim>\<open>images\<close> table with its \<^verbatim>\<open>AUTOINCREMENT\<close> counter,
  and the calls and console lines so far, oldest first.
\<close>

record world =
  bucket :: "jsstring \<rightharpoonup> byte list \<times> jsstring"
  images_table :: "image list"
  seq :: nat
  trace :: "event list"

definition emit :: "event \<Rightarrow> world \<Rightarrow> world" where
  "emit ev w = w\<lparr>trace := trace w @ [ev]\<rparr>"

subsection \<open>The bindings\<close>

text \<open>A call that throws leaves the bucket and the table as they were.\<close>

definition r2_put :: "outcomes \<Rightarrow> jsstring \<Rightarrow> js_file \<Rightarrow> world \<Rightarrow> (js_error + unit) \<times> world" where
  "r2_put oc key f w =
     (let w1 = emit (R2Put key (file_bytes f) (file_type f)) w in
      case put_outcome oc of
        Some e \<Rightarrow> (Inl e, w1)
      | None \<Rightarrow> (Inr (), w1\<lparr>bucket := (bucket w1)(key \<mapsto> (file_bytes f, file_type f))\<rparr>))"

definition r2_delete :: "outcomes \<Rightarrow> jsstring \<Rightarrow> world \<Rightarrow> (js_error + unit) \<times> world" where
  "r2_delete oc key w =
     (let w1 = emit (R2Delete key) w in
      case delete_outcome oc of
        Some e \<Rightarrow> (Inl e, w1)
      | None \<Rightarrow> (Inr (), w1\<lparr>bucket := (bucket w1)(key := None)\<rparr>))"

definition fetch_url :: "outcomes \<Rightarrow> jsstring \<Rightarrow> world \<Rightarrow> (js_error + fetch_response) \<times> world" where
  "fetch_url oc u w = (fetch_outcome oc, emit (Fetch u) w)"

definition ai_run :: "outcomes \<Rightarrow> byte list \<Rightarrow> world \<Rightarrow> (js_error + jsstring option) \<times> world" where
  "ai_run oc buf w = (ai_outcome oc, emit (AiRun buf) w)"

text \<open>
  \<^verbatim>\<open>INSERT INTO images (url, name, description) VALUES (?, ?, ?)\<close>: the table gives the
  row its \<^verbatim>\<open>id\<close> and its \<^verbatim>\<open>created_at\<close>. Only a successful run adds the row.
\<close>

definition db_insert ::
  "outcomes \<Rightarrow> jsstring \<Rightarrow> jsstring \<Rightarrow> jsstring option \<Rightarrow> world \<Rightarrow> (js_error + bool) \<times> world" where
  "db_insert oc u nm d w =
     (let w1 = emit (DbInsert u nm d) w in
      case insert_outcome oc of
        Inl e \<Rightarrow> (Inl e, w1)
      | Inr False \<Rightarrow> (Inr False, w1)
      | Inr True \<Rightarrow>
          (Inr True,
           w1\<lparr>images_table := images_table w1 @
                 [\<lparr>image_id = Suc (seq w1), url = u, name = nm, description = d,
                   created_at = current_timestamp oc\<rparr>],
               seq := Suc (seq w1)\<rparr>))"

text \<open>
  \<^verbatim>\<open>SELECT * FROM images ORDER BY created_at DESC\<close>: every row, by \<^verbatim>\<open>created_at\<close>
  compared as text, greatest first. SQL leaves the order of rows with equal
  \<^verbatim>\<open>created_at\<close> open; here a row goes after the rows equal to it.
\<close>

fun insert_desc :: "image \<Rightarrow> image list \<Rightarrow> image list" where
  "insert_desc r [] = [r]"
| "insert_desc r (x # xs) =
     (if created_at x < created_at r then r # x # xs else x # insert_desc r xs)"

definition order_by_created_at_desc :: "image list \<Rightarrow> image list" where
  "order_by_created_at_desc rows = foldl (\<lambda>acc r. insert_desc r acc) [] rows"

definition db_select_all :: "outcomes \<Rightarrow> world \<Rightarrow> (js_error + image list) \<times> world" where
  "db_select_all oc w =
     (let w1 = emit DbSelectAll w in
      case select_outcome oc of
        Some e \<Rightarrow> (Inl e, w1)
      | None \<Rightarrow> (Inr (order_by_created_at_desc (images_table w1)), w1))"

subsection \<open>The loader (lines 22 to 45)\<close>

datatype status = StatusSuccess | StatusError

record loader_data =
  status :: status
  images :: "image list"
  message :: "jsstring option"

definition loader :: "outcomes \<Rightarrow> world \<Rightarrow> loader_data \<times> world" where
  "loader oc w =
     (case db_select_all oc w of
        (Inr results, w1) \<Rightarrow>
          (\<lparr>status = StatusSuccess, images = results, message = None\<rparr>, w1)
      | (Inl e, w1) \<Rightarrow>
          (\<lparr>status = StatusError, images = [],
            message = Some (error_message e (ascii ''Failed to load images''))\<rparr>,
           emit (ConsoleError (ascii ''Failed to load images:'') e) w1))"

subsection \<open>The action (lines 47 to 131)\<close>

definition sentinel :: jsstring where
  "sentinel = ascii ''Description unavailable''"

text \<open>Lines 80 to 90: the inner \<^verbatim>\<open>try\<close> around \<^verbatim>\<open>AI.run\<close>.\<close>

definition describe :: "outcomes \<Rightarrow> byte list \<Rightarrow> world \<Rightarrow> jsstring option \<times> world" where
  "describe oc buf w =
     (case ai_run oc buf w of
        (Inr d, w1) \<Rightarrow> (d, w1)
      | (Inl e, w1) \<Rightarrow>
          (Some sentinel, emit (ConsoleError (ascii ''AI description failed:'') e) w1))"

text \<open>
  Line 57. Reading \<^verbatim>\<open>image.name\<close> of \<^verbatim>\<open>null\<close>, or calling \<^verbatim>\<open>replace\<close> on the
  \<^verbatim>\<open>undefined\<close> that is the \<^verbatim>\<open>name\<close> of a string, throws a \<^verbatim>\<open>TypeError\<close> before
  \<^verbatim>\<open>key\<close> is assigned.
\<close>

definition derive_key :: "outcomes \<Rightarrow> int \<Rightarrow> form_value \<Rightarrow> js_error + jsstring \<times> js_file" where
  "derive_key oc now v =
     (case v of
        FormFile f \<Rightarrow> Inr (store_key now (file_name f), f)
      | _ \<Rightarrow> Inl (JsError (type_error_text oc)))"

text \<open>Lines 59 to 103: the rest of the \<^verbatim>\<open>try\<close> block, once \<^verbatim>\<open>key\<close> is assigned.\<close>

definition upload_body ::
  "outcomes \<Rightarrow> jsstring \<Rightarrow> jsstring \<Rightarrow> js_file \<Rightarrow> world \<Rightarrow> (js_error + unit) \<times> world" where
  "upload_body oc base key f w =
     (case r2_put oc key f w of
        (Inl e, w1) \<Rightarrow> (Inl e, w1)
      | (Inr _, w1) \<Rightarrow>
          (let u = base @ ascii ''/'' @ key;
               w2 = emit (ConsoleLog (ascii ''url'') (ArgString u)) w1
           in case fetch_url oc u w2 of
                (Inl e, w3) \<Rightarrow> (Inl e, w3)
              | (Inr imageResponse, w3) \<Rightarrow>
                  if \<not> ok imageResponse
                  then (Inl (JsError (ascii ''Failed to fetch uploaded image: ''
                                       @ statusText imageResponse)), w3)
                  else
                    (case arrayBuffer imageResponse of
                       Inl e \<Rightarrow> (Inl e, w3)
                     | Inr imageBlob \<Rightarrow>
                         (case describe oc imageBlob w3 of
                            (d, w4) \<Rightarrow>
                              (case db_insert oc u (file_name f) d w4 of
                                 (Inl e, w5) \<Rightarrow> (Inl e, w5)
                               | (Inr success, w5) \<Rightarrow>
                                   if \<not> success
                                   then (Inl (JsError
                                     (ascii ''Failed to save image details to database'')), w5)
                                   else (Inr (), w5))))))"

text \<open>\<^verbatim>\<open>if (key)\<close>: \<^verbatim>\<open>undefined\<close> and the empty string are falsy.\<close>

fun truthy :: "jsstring option \<Rightarrow> bool" where
  "truthy None = False"
| "truthy (Some k) = (k \<noteq> [])"

text \<open>Lines 104 to 118: the \<^verbatim>\<open>catch\<close> of the inner \<^verbatim>\<open>try\<close>, which throws \<open>e\<close> again.\<close>

definition rollback :: "outcomes \<Rightarrow> jsstring option \<Rightarrow> js_error \<Rightarrow> world \<Rightarrow> world" where
  "rollback oc key e w =
     (let w1 = emit (ConsoleLog (ascii ''error'') (ArgError e)) w in
      case key of
        None \<Rightarrow> w1
      | Some k \<Rightarrow>
          if truthy key
          then (case r2_delete oc k w1 of
                  (Inl deleteError, w2) \<Rightarrow>
                    emit (ConsoleError (ascii ''Failed to delete image after error:'')
                            deleteError) w2
                | (Inr _, w2) \<Rightarrow> w2)
          else w1)"

text \<open>Lines 55 to 118: the inner \<^verbatim>\<open>try\<close> with its \<^verbatim>\<open>catch\<close>.\<close>

definition upload_attempt ::
  "outcomes \<Rightarrow> int \<Rightarrow> jsstring \<Rightarrow> form_value \<Rightarrow> world \<Rightarrow> (js_error + unit) \<times> world" where
  "upload_attempt oc now base v w =
     (case derive_key oc now v of
        Inl e \<Rightarrow> (Inl e, rollback oc None e w)
      | Inr (key, f) \<Rightarrow>
          (case upload_body oc base key f w of
             (Inr u, w1) \<Rightarrow> (Inr u, w1)
           | (Inl e, w1) \<Rightarrow> (Inl e, rollback oc (Some key) e w1)))"

datatype action_response = JsonSuccess | JsonError jsstring nat

definition action ::
  "outcomes \<Rightarrow> int \<Rightarrow> jsstring \<Rightarrow> request \<Rightarrow> world \<Rightarrow> action_response \<times> world" where
  "action oc now base req w =
     (case (case req of
              FormDataThrows e \<Rightarrow> (Inl e, w)
            | FormDataOk v \<Rightarrow> upload_attempt oc now base v w) of
        (Inr _, w1) \<Rightarrow> (JsonSuccess, w1)
      | (Inl e, w1) \<Rightarrow>
          (JsonError (error_message e (ascii ''An unexpected error occurred'')) 500,
           emit (ConsoleError (ascii ''Upload error:'') e) w1))"

subsection \<open>Reading a trace\<close>

fun deleted_keys :: "event list \<Rightarrow> jsstring list" where
  "deleted_keys [] = []"
| "deleted_keys (R2Delete k # evs) = k # deleted_keys evs"
| "deleted_keys (_ # evs) = deleted_keys evs"

fun put_keys :: "event list \<Rightarrow> jsstring list" where
  "put_keys [] = []"
| "put_keys (R2Put k _ _ # evs) = k # put_keys evs"
| "put_keys (_ # evs) = put_keys evs"

fun inserts :: "event list \<Rightarrow> (jsstring \<times> jsstring \<times> jsstring option) list" where
  "inserts [] = []"
| "inserts (DbInsert u nm d # evs) = (u, nm, d) # inserts evs"
| "inserts (_ # evs) = inserts evs"

text \<open>The failures of the read-back (lines 72 to 78) and of the insert (lines 93 to 101).\<close>

definition readback_fails :: "outcomes \<Rightarrow> bool" where
  "readback_fails oc =
     (case fetch_outcome oc of
        Inl _ \<Rightarrow> True
      | Inr r \<Rightarrow> \<not> ok r \<or> isl (arrayBuffer r))"

definition insert_fails :: "outcomes \<Rightarrow> bool" where
  "insert_fails oc = (case insert_outcome oc of Inl _ \<Rightarrow> True | Inr success \<Rightarrow> \<not> success)"

subsection \<open>Sample values\<close>

text \<open>A ten-byte \<^verbatim>\<open>cat.png\<close>, a request in which every call resolves, a fresh world.\<close>

definition cat_png :: js_file where
  "cat_png = \<lparr>file_name = ascii ''cat.png'', file_type = ascii ''image/png'',
               file_bytes = [137, 80, 78, 71, 13, 10, 26, 10, 0, 0]\<rparr>"

definition empty_file :: js_file where
  "empty_file = \<lparr>file_name = [], file_type = [], file_bytes = []\<rparr>"

definition public_base :: jsstring where
  "public_base = ascii ''https://pub.example''"

definition all_succeed :: outcomes where
  "all_succeed =
     \<lparr>put_outcome = None,
      fetch_outcome = Inr \<lparr>ok = True, statusText = ascii ''OK'',
                           arrayBuffer = Inr [137, 80, 78, 71, 13, 10, 26, 10, 0, 0]\<rparr>,
      ai_outcome = Inr (Some (ascii ''a cat'')),
      insert_outcome = Inr True,
      delete_outcome = None,
      select_outcome = None,
      current_timestamp = ascii ''2024-01-01 00:00:00'',
      type_error_text = ascii ''Cannot read properties of null (reading name)''\<rparr>"

definition empty_world :: world where
  "empty_world = \<lparr>bucket = Map.empty, images_table = [], seq = 0, trace = []\<rparr>"

definition sample_rows :: "image list" where
  "sample_rows =
     [\<lparr>image_id = 1, url = ascii ''https://pub.example/images/1-a.png'', name = ascii ''a.png'',
       description = Some (ascii ''a cat''), created_at = ascii ''2024-01-01 09:59:59''\<rparr>,
      \<lparr>image_id = 2, url = ascii ''https://pub.example/images/2-b.png'', name = ascii ''b.png'',
       description = None, created_at = ascii ''2024-01-01 10:00:00''\<rparr>,
      \<lparr>image_id = 3, url = ascii ''https://pub.example/images/3-c.png'', name = ascii ''c.png'',
       description = Some (ascii ''Description unavailable''),
       created_at = ascii ''2024-01-02 00:00:00''\<rparr>]"

section \<open>Properties\<close>

subsection \<open>Rendering the timestamp and replacing white space\<close>

lemma dec_small: "n < 10 \<Longrightarrow> dec n = [digit n]"
  by (simp add: dec.simps)

lemma dec_large: "\<not> n < 10 \<Longrightarrow> dec n = dec (n div 10) @ [digit (n mod 10)]"
  by (subst dec.simps) simp









lemma store_key_not_Nil: "store_key now nm \<noteq> []"
  by (simp add: store_key_def ascii_def)


lemma replace_ws_run_front:
  assumes "ws \<noteq> []" and "\<forall>c\<in>set ws. is_space c"
  shows "replace_ws (ws @ ys) = hyphen # replace_ws (dropWhile is_space ys)"
proof (cases ws)
  case Nil
  with assms show ?thesis by simp
next
  case (Cons c cs)
  with assms have "is_space c" and "\<forall>x\<in>set cs. is_space x"
    by simp_all
  then show ?thesis
    by (simp add: Cons)
qed

lemma replace_ws_run_any:
  assumes "ws1 \<noteq> []" and "\<forall>c\<in>set ws1. is_space c"
    and "ws2 \<noteq> []" and "\<forall>c\<in>set ws2. is_space c"
  shows "replace_ws (xs @ ws1 @ ys) = replace_ws (xs @ ws2 @ ys)"
proof (induction xs rule: replace_ws.induct)
  case 1
  show ?case
    by (simp add: replace_ws_run_front assms)
next
  case (2 c cs)
  show ?case
  proof (cases "is_space c")
    case False
    with 2 show ?thesis by simp
  next
    case sp: True
    show ?thesis
    proof (cases "\<forall>x\<in>set cs. is_space x")
      case True
      then have "dropWhile is_space (cs @ ws @ ys) = dropWhile is_space (ws @ ys)" for ws
        by (simp add: dropWhile_append2)
      moreover have "dropWhile is_space (ws @ ys) = dropWhile is_space ys"
        if "\<forall>c\<in>set ws. is_space c" for ws
        using that by (simp add: dropWhile_append2)
      ultimately show ?thesis
        using sp assms by simp
    next
      case False
      then have "dropWhile is_space (cs @ ws @ ys) = dropWhile is_space cs @ ws @ ys" for ws
        by (auto intro: dropWhile_append1)
      with sp 2 show ?thesis
        by simp
    qed
  qed
qed

lemma replace_ws_run:
  assumes "ws \<noteq> []" and "\<forall>c\<in>set ws. is_space c"
    and "xs = [] \<or> \<not> is_space (last xs)"
    and "ys = [] \<or> \<not> is_space (hd ys)"
  shows "replace_ws (xs @ ws @ ys) = replace_ws xs @ [hyphen] @ replace_ws ys"
  using assms(3)
proof (induction xs rule: replace_ws.induct)
  case 1
  have "dropWhile is_space ys = ys"
    using assms(4) by (cases ys) simp_all
  then show ?case
    by (simp add: replace_ws_run_front assms(1,2))
next
  case (2 c cs)
  show ?case
  proof (cases "is_space c")
    case False
    with 2 have "cs = [] \<or> \<not> is_space (last cs)"
      by (auto split: if_splits)
    with False 2 show ?thesis by simp
  next
    case sp: True
    with "2.prems" have cs: "cs \<noteq> []" and l: "\<not> is_space (last cs)"
      by (auto split: if_splits)
    then have ex: "\<exists>x\<in>set cs. \<not> is_space x"
      using last_in_set by blast
    then have d: "dropWhile is_space (cs @ ws @ ys) = dropWhile is_space cs @ ws @ ys"
      by (auto intro: dropWhile_append1)
    from ex have ne: "dropWhile is_space cs \<noteq> []"
      by (simp add: dropWhile_eq_Nil_conv)
    have "last (dropWhile is_space cs) = last cs"
      using ne by (metis append_Nil2 last_appendR takeWhile_dropWhile_id)
    with l ne have "dropWhile is_space cs = [] \<or> \<not> is_space (last (dropWhile is_space cs))"
      by simp
    with sp "2.IH"(1) have
      "replace_ws (dropWhile is_space cs @ ws @ ys)
         = replace_ws (dropWhile is_space cs) @ [hyphen] @ replace_ws ys"
      by blast
    with sp d show ?thesis
      by simp
  qed
qed

lemma store_key_same_run:
  assumes "ws1 \<noteq> []" and "\<forall>c\<in>set ws1. is_space c"
    and "ws2 \<noteq> []" and "\<forall>c\<in>set ws2. is_space c"
  shows "store_key now (xs @ ws1 @ ys) = store_key now (xs @ ws2 @ ys)"
  by (simp add: store_key_def replace_ws_run_any [OF assms])

subsection \<open>Traces and the shape of a request\<close>

lemma deleted_keys_append: "deleted_keys (xs @ ys) = deleted_keys xs @ deleted_keys ys"
  by (induction xs rule: deleted_keys.induct) simp_all

lemma put_keys_append: "put_keys (xs @ ys) = put_keys xs @ put_keys ys"
  by (induction xs rule: put_keys.induct) simp_all

lemma inserts_append: "inserts (xs @ ys) = inserts xs @ inserts ys"
  by (induction xs rule: inserts.induct) simp_all

lemma emit_simps:
  "trace (emit ev w) = trace w @ [ev]"
  "bucket (emit ev w) = bucket w"
  "images_table (emit ev w) = images_table w"
  "seq (emit ev w) = seq w"
  by (simp_all add: emit_def)

lemmas binding_defs =
  r2_put_def r2_delete_def fetch_url_def ai_run_def db_insert_def describe_def

lemmas outcome_splits = sum.splits option.splits prod.splits bool.splits

lemma action_file:
  "action oc now base (FormDataOk (FormFile f)) w =
     (case upload_body oc base (store_key now (file_name f)) f w of
        (Inr u, w1) \<Rightarrow> (JsonSuccess, w1)
      | (Inl e, w1) \<Rightarrow>
          (JsonError (error_message e (ascii ''An unexpected error occurred'')) 500,
           emit (ConsoleError (ascii ''Upload error:'') e)
             (rollback oc (Some (store_key now (file_name f))) e w1)))"
  by (simp add: action_def upload_attempt_def derive_key_def split: outcome_splits)

lemma action_no_file:
  assumes "\<And>f. v \<noteq> FormFile f"
  shows "action oc now base (FormDataOk v) w =
     (JsonError (type_error_text oc) 500,
      w\<lparr>trace := trace w @
           [ConsoleLog (ascii ''error'') (ArgError (JsError (type_error_text oc))),
            ConsoleError (ascii ''Upload error:'') (JsError (type_error_text oc))]\<rparr>)"
  using assms
  by (cases v) (auto simp: action_def upload_attempt_def derive_key_def rollback_def emit_def)

lemma rollback_trace:
  "k \<noteq> [] \<Longrightarrow> trace (rollback oc (Some k) e w) =
     trace w @ [ConsoleLog (ascii ''error'') (ArgError e), R2Delete k]
       @ (case delete_outcome oc of
            None \<Rightarrow> []
          | Some deleteError \<Rightarrow>
              [ConsoleError (ascii ''Failed to delete image after error:'') deleteError])"
  by (simp add: rollback_def r2_delete_def emit_simps Let_def split: option.splits)

lemma rollback_store:
  "k \<noteq> [] \<Longrightarrow> bucket (rollback oc (Some k) e w) =
     (case delete_outcome oc of None \<Rightarrow> (bucket w)(k := None) | Some _ \<Rightarrow> bucket w)"
  "images_table (rollback oc key e w) = images_table w"
  "seq (rollback oc key e w) = seq w"
  by (simp_all add: rollback_def r2_delete_def emit_simps Let_def split: option.splits)

lemma upload_body_calls:
  "put_keys (trace (snd (upload_body oc base key f w))) = put_keys (trace w) @ [key]"
  "deleted_keys (trace (snd (upload_body oc base key f w))) = deleted_keys (trace w)"
  by (simp_all add: upload_body_def binding_defs emit_simps put_keys_append
      deleted_keys_append Let_def split: outcome_splits)

lemma upload_body_failure:
  assumes "fst (upload_body oc base key f w) = Inl e"
  shows "images_table (snd (upload_body oc base key f w)) = images_table w"
    and "seq (snd (upload_body oc base key f w)) = seq w"
  using assms
  by (auto simp: upload_body_def binding_defs emit_simps Let_def
      split: outcome_splits if_splits)

lemma upload_body_fails_iff:
  "isl (fst (upload_body oc base key f w))
     \<longleftrightarrow> put_outcome oc \<noteq> None \<or> readback_fails oc \<or> insert_fails oc"
  by (simp add: upload_body_def binding_defs readback_fails_def insert_fails_def Let_def
      split: outcome_splits)


lemma action_file_trace:
  "trace (snd (action oc now base (FormDataOk (FormFile f)) w)) =
     trace (snd (upload_body oc base (store_key now (file_name f)) f w))
     @ (case fst (upload_body oc base (store_key now (file_name f)) f w) of
          Inr u \<Rightarrow> []
        | Inl e \<Rightarrow>
            [ConsoleLog (ascii ''error'') (ArgError e), R2Delete (store_key now (file_name f))]
            @ (case delete_outcome oc of
                 None \<Rightarrow> []
               | Some deleteError \<Rightarrow>
                   [ConsoleError (ascii ''Failed to delete image after error:'') deleteError])
            @ [ConsoleError (ascii ''Upload error:'') e])"
  by (simp add: action_file rollback_trace store_key_not_Nil emit_simps split: outcome_splits)

lemma action_file_response:
  "fst (action oc now base (FormDataOk (FormFile f)) w) =
     (case fst (upload_body oc base (store_key now (file_name f)) f w) of
        Inr u \<Rightarrow> JsonSuccess
      | Inl e \<Rightarrow> JsonError (error_message e (ascii ''An unexpected error occurred'')) 500)"
  by (simp add: action_file split: outcome_splits)

lemma action_file_store:
  "fst (upload_body oc base (store_key now (file_name f)) f w) = Inl e \<Longrightarrow>
   bucket (snd (action oc now base (FormDataOk (FormFile f)) w)) =
     (case delete_outcome oc of
        None \<Rightarrow> (bucket (snd (upload_body oc base (store_key now (file_name f)) f w)))
                  (store_key now (file_name f) := None)
      | Some _ \<Rightarrow> bucket (snd (upload_body oc base (store_key now (file_name f)) f w)))"
  "fst (upload_body oc base (store_key now (file_name f)) f w) = Inl e \<Longrightarrow>
   images_table (snd (action oc now base (FormDataOk (FormFile f)) w)) = images_table w"
  "fst (upload_body oc base (store_key now (file_name f)) f w) = Inr u \<Longrightarrow>
   snd (action oc now base (FormDataOk (FormFile f)) w)
     = snd (upload_body oc base (store_key now (file_name f)) f w)"
  using upload_body_failure(1) [of oc base "store_key now (file_name f)" f w e]
  by (auto simp: action_file rollback_store store_key_not_Nil emit_simps split: outcome_splits)

lemma upload_body_put_fails:
  "put_outcome oc = Some e \<Longrightarrow>
   upload_body oc base key f w = (Inl e, emit (R2Put key (file_bytes f) (file_type f)) w)"
  by (simp add: upload_body_def r2_put_def)

lemma number_to_string_samples:
  "number_to_string 1700000000000 = ascii ''1700000000000''"
  "number_to_string 1700000000001 = ascii ''1700000000001''"
  by (simp_all add: number_to_string_def dec_small dec_large digit_def ascii_def)

lemma store_key_samples:
  "store_key 1700000000000 (ascii ''cat.png'') = ascii ''images/1700000000000-cat.png''"
  "store_key 1700000000001 (ascii ''cat.png'') = ascii ''images/1700000000001-cat.png''"
  "store_key 1700000000000 [] = ascii ''images/1700000000000-''"
  by (simp_all add: store_key_def number_to_string_samples) (simp_all add: ascii_def is_space_def)


lemma upload_body_cong:
  assumes "put_outcome oc' = put_outcome oc" and "fetch_outcome oc' = fetch_outcome oc"
    and "ai_outcome oc' = ai_outcome oc" and "insert_outcome oc' = insert_outcome oc"
    and "current_timestamp oc' = current_timestamp oc"
  shows "upload_body oc' = upload_body oc"
proof -
  have "r2_put oc' = r2_put oc" and "fetch_url oc' = fetch_url oc"
    and "describe oc' = describe oc" and "db_insert oc' = db_insert oc"
    by (simp_all add: fun_eq_iff r2_put_def fetch_url_def describe_def ai_run_def
        db_insert_def assms Let_def split: outcome_splits)
  then show ?thesis
    by (simp only: upload_body_def fun_eq_iff) simp
qed

lemma upload_body_soft_insert_failure:
  assumes "put_outcome oc = None" and "\<not> readback_fails oc" and "insert_outcome oc = Inr False"
  shows "upload_body oc base key f w
      = upload_body (oc\<lparr>insert_outcome :=
          Inl (JsError (ascii ''Failed to save image details to database''))\<rparr>) base key f w"
    and "fst (upload_body oc base key f w)
      = Inl (JsError (ascii ''Failed to save image details to database''))"
  using assms
  by (auto simp: upload_body_def binding_defs readback_fails_def Let_def split: outcome_splits)

subsection \<open>Ordering the rows\<close>

lemma mset_insert_desc: "mset (insert_desc r xs) = add_mset r (mset xs)"
  by (induction xs) simp_all

lemma set_insert_desc: "set (insert_desc r xs) = insert r (set xs)"
  by (induction xs) auto

lemma sorted_insert_desc:
  "sorted_wrt (\<lambda>a b. created_at b \<le> created_at a) xs
   \<Longrightarrow> sorted_wrt (\<lambda>a b. created_at b \<le> created_at a) (insert_desc r xs)"
proof (induction xs)
  case Nil
  then show ?case by simp
next
  case (Cons x xs)
  show ?case
  proof (cases "created_at x < created_at r")
    case True
    with Cons.prems show ?thesis
      by (auto intro: order.trans less_imp_le)
  next
    case False
    with Cons show ?thesis
      by (auto simp: set_insert_desc)
  qed
qed

lemma insert_desc_front:
  "\<forall>a\<in>set acc. created_at a < created_at r \<Longrightarrow> insert_desc r acc = r # acc"
  by (cases acc) simp_all

lemma foldl_insert_desc_mset:
  "mset (foldl (\<lambda>acc r. insert_desc r acc) acc rows) = mset acc + mset rows"
  by (induction rows arbitrary: acc) (simp_all add: mset_insert_desc)

lemma foldl_insert_desc_sorted:
  "sorted_wrt (\<lambda>a b. created_at b \<le> created_at a) acc
   \<Longrightarrow> sorted_wrt (\<lambda>a b. created_at b \<le> created_at a)
         (foldl (\<lambda>acc r. insert_desc r acc) acc rows)"
  by (induction rows arbitrary: acc) (simp_all add: sorted_insert_desc)

lemma foldl_insert_desc_increasing:
  assumes "sorted_wrt (<) (map created_at rows)"
    and "\<forall>a\<in>set acc. \<forall>r\<in>set rows. created_at a < created_at r"
  shows "foldl (\<lambda>acc r. insert_desc r acc) acc rows = rev rows @ acc"
  using assms
proof (induction rows arbitrary: acc)
  case Nil
  then show ?case by simp
next
  case (Cons r rows)
  from Cons.prems(2) have "insert_desc r acc = r # acc"
    by (simp add: insert_desc_front)
  moreover have "foldl (\<lambda>acc r. insert_desc r acc) (r # acc) rows = rev rows @ r # acc"
    using Cons.prems by (intro Cons.IH) auto
  ultimately show ?case
    by simp
qed

lemma order_by_created_at_desc_props:
  "mset (order_by_created_at_desc rows) = mset rows"
  "sorted_wrt (\<lambda>a b. created_at b \<le> created_at a) (order_by_created_at_desc rows)"
  "sorted_wrt (<) (map created_at rows) \<Longrightarrow> order_by_created_at_desc rows = rev rows"
  by (simp_all add: order_by_created_at_desc_def foldl_insert_desc_mset
      foldl_insert_desc_sorted foldl_insert_desc_increasing)

subsection \<open>The upload action\<close>

text \<open>
  Claim C1. When the put resolves and the read-back or the insert fails, the action calls
  \<^verbatim>\<open>R2.delete(key)\<close> for the key of this request, once, after the failure and before
  the error is logged and answered with status 500; the answer carries the message of the
  failure. If that delete resolves, the bucket holds nothing under the key and the table
  has the rows it had before.
\<close>

theorem compensation_after_readback_or_insert_failure:
  assumes "put_outcome oc = None" and "readback_fails oc \<or> insert_fails oc"
  shows "\<exists>e. fst (upload_body oc base (store_key now (file_name f)) f w) = Inl e
    \<and> fst (action oc now base (FormDataOk (FormFile f)) w)
        = JsonError (error_message e (ascii ''An unexpected error occurred'')) 500
    \<and> trace (snd (action oc now base (FormDataOk (FormFile f)) w))
        = trace (snd (upload_body oc base (store_key now (file_name f)) f w))
          @ [ConsoleLog (ascii ''error'') (ArgError e), R2Delete (store_key now (file_name f))]
          @ (case delete_outcome oc of
               None \<Rightarrow> []
             | Some deleteError \<Rightarrow>
                 [ConsoleError (ascii ''Failed to delete image after error:'') deleteError])
          @ [ConsoleError (ascii ''Upload error:'') e]
    \<and> deleted_keys (trace (snd (action oc now base (FormDataOk (FormFile f)) w)))
        = deleted_keys (trace w) @ [store_key now (file_name f)]
    \<and> (delete_outcome oc = None \<longrightarrow>
          bucket (snd (action oc now base (FormDataOk (FormFile f)) w))
            (store_key now (file_name f)) = None
          \<and> images_table (snd (action oc now base (FormDataOk (FormFile f)) w))
              = images_table w)"
proof -
  let ?key = "store_key now (file_name f)"
  from assms have "isl (fst (upload_body oc base ?key f w))"
    by (simp add: upload_body_fails_iff)
  then obtain e where e: "fst (upload_body oc base ?key f w) = Inl e"
    by (auto simp: isl_def)
  have "deleted_keys (trace (snd (action oc now base (FormDataOk (FormFile f)) w)))
      = deleted_keys (trace w) @ [?key]"
    by (simp add: action_file_trace e deleted_keys_append upload_body_calls(2)
        split: option.splits)
  with e show ?thesis
    by (simp add: action_file_trace action_file_response action_file_store(1,2) [OF e])
qed

theorem compensation_after_readback_or_insert_failure_witness:
  "put_outcome (all_succeed\<lparr>insert_outcome := Inr False\<rparr>) = None
   \<and> insert_fails (all_succeed\<lparr>insert_outcome := Inr False\<rparr>)
   \<and> deleted_keys (trace (snd (action (all_succeed\<lparr>insert_outcome := Inr False\<rparr>)
          1700000000000 public_base (FormDataOk (FormFile cat_png)) empty_world)))
       = [store_key 1700000000000 (file_name cat_png)]
   \<and> bucket (snd (action (all_succeed\<lparr>insert_outcome := Inr False\<rparr>)
          1700000000000 public_base (FormDataOk (FormFile cat_png)) empty_world))
        (store_key 1700000000000 (file_name cat_png)) = None
   \<and> images_table (snd (action (all_succeed\<lparr>insert_outcome := Inr False\<rparr>)
          1700000000000 public_base (FormDataOk (FormFile cat_png)) empty_world)) = []"
proof -
  have a: "put_outcome (all_succeed\<lparr>insert_outcome := Inr False\<rparr>) = None"
    and d: "delete_outcome (all_succeed\<lparr>insert_outcome := Inr False\<rparr>) = None"
    by (simp_all add: all_succeed_def)
  have b: "insert_fails (all_succeed\<lparr>insert_outcome := Inr False\<rparr>)"
    by (simp add: insert_fails_def)
  have c: "trace empty_world = []" "images_table empty_world = []"
    by (simp_all add: empty_world_def)
  from compensation_after_readback_or_insert_failure
    [OF a disjI2 [OF b], of public_base 1700000000000 cat_png empty_world]
  show ?thesis
    using a b c d by auto
qed

text \<open>
  Claim C2 says that a failing put is followed by no delete. The key is assigned on
  line 57, before \<^verbatim>\<open>R2.put\<close> is called, so the \<^verbatim>\<open>catch\<close> of lines 104 to 118 finds
  it truthy: with a put that throws, \<^verbatim>\<open>R2.delete\<close> is called on the key.
\<close>

theorem delete_invoked_when_put_fails:
  "put_outcome (all_succeed\<lparr>put_outcome := Some (JsError (ascii ''put failed''))\<rparr>) \<noteq> None
   \<and> deleted_keys (trace (snd (action
          (all_succeed\<lparr>put_outcome := Some (JsError (ascii ''put failed''))\<rparr>)
          1700000000000 public_base (FormDataOk (FormFile cat_png)) empty_world)))
       = [ascii ''images/1700000000000-cat.png'']"
  by (simp add: action_file_trace upload_body_put_fails emit_simps all_succeed_def
      empty_world_def deleted_keys_append) (simp add: cat_png_def store_key_samples)

text \<open>
  Claim C2, as amended. When the put throws, nothing is inserted and the answer carries
  the message of the put's error with status 500, and \<^verbatim>\<open>R2.delete(key)\<close> is called once,
  after the put. No delete is made by the requests that fail before the key is assigned:
  a form without a file under \<^verbatim>\<open>image\<close> and a body that cannot be read as a form.
\<close>

theorem put_failure_still_deletes_key:
  assumes "put_outcome oc = Some e"
  shows "fst (action oc now base (FormDataOk (FormFile f)) w)
        = JsonError (error_message e (ascii ''An unexpected error occurred'')) 500
    \<and> trace (snd (action oc now base (FormDataOk (FormFile f)) w))
        = trace w
          @ [R2Put (store_key now (file_name f)) (file_bytes f) (file_type f),
             ConsoleLog (ascii ''error'') (ArgError e),
             R2Delete (store_key now (file_name f))]
          @ (case delete_outcome oc of
               None \<Rightarrow> []
             | Some deleteError \<Rightarrow>
                 [ConsoleError (ascii ''Failed to delete image after error:'') deleteError])
          @ [ConsoleError (ascii ''Upload error:'') e]
    \<and> images_table (snd (action oc now base (FormDataOk (FormFile f)) w)) = images_table w
    \<and> deleted_keys (trace (snd (action oc now base (FormDataOk FormNull) w)))
        = deleted_keys (trace w)
    \<and> deleted_keys (trace (snd (action oc now base (FormDataOk (FormString s)) w)))
        = deleted_keys (trace w)
    \<and> deleted_keys (trace (snd (action oc now base (FormDataThrows e') w)))
        = deleted_keys (trace w)"
proof -
  have ub: "fst (upload_body oc base (store_key now (file_name f)) f w) = Inl e"
    by (simp add: upload_body_put_fails [OF assms])
  have "deleted_keys (trace (snd (action oc now base (FormDataThrows e') w)))
      = deleted_keys (trace w)"
    by (simp add: action_def emit_simps deleted_keys_append)
  then show ?thesis
    by (simp add: action_file_trace action_file_response action_file_store(2) [OF ub]
        upload_body_put_fails [OF assms] emit_simps action_no_file deleted_keys_append)
qed

theorem put_failure_still_deletes_key_witness:
  "put_outcome (all_succeed\<lparr>put_outcome := Some (JsError (ascii ''put failed''))\<rparr>)
     = Some (JsError (ascii ''put failed''))
   \<and> fst (action (all_succeed\<lparr>put_outcome := Some (JsError (ascii ''put failed''))\<rparr>)
        1700000000000 public_base (FormDataOk (FormFile cat_png)) empty_world)
     = JsonError (ascii ''put failed'') 500
   \<and> trace (snd (action (all_succeed\<lparr>put_outcome := Some (JsError (ascii ''put failed''))\<rparr>)
        1700000000000 public_base (FormDataOk (FormFile cat_png)) empty_world))
     = [R2Put (ascii ''images/1700000000000-cat.png'') (file_bytes cat_png) (file_type cat_png),
        ConsoleLog (ascii ''error'') (ArgError (JsError (ascii ''put failed''))),
        R2Delete (ascii ''images/1700000000000-cat.png''),
        ConsoleError (ascii ''Upload error:'') (JsError (ascii ''put failed''))]
   \<and> images_table (snd (action
        (all_succeed\<lparr>put_outcome := Some (JsError (ascii ''put failed''))\<rparr>)
        1700000000000 public_base (FormDataOk (FormFile cat_png)) empty_world)) = []"
proof -
  have a: "put_outcome (all_succeed\<lparr>put_outcome := Some (JsError (ascii ''put failed''))\<rparr>)
     = Some (JsError (ascii ''put failed''))"
    by simp
  have d: "delete_outcome (all_succeed\<lparr>put_outcome := Some (JsError (ascii ''put failed''))\<rparr>)
     = None"
    by (simp add: all_succeed_def)
  have w: "trace empty_world = []" "images_table empty_world = []"
    by (simp_all add: empty_world_def)
  have k: "store_key 1700000000000 (file_name cat_png) = ascii ''images/1700000000000-cat.png''"
    by (simp add: cat_png_def store_key_samples)
  from put_failure_still_deletes_key
    [OF a, of 1700000000000 public_base cat_png empty_world]
  show ?thesis
    using a d w k by simp
qed

text \<open>
  Claim C3 says that a file with an empty name or no bytes is rejected before anything
  is stored. The action checks neither: an empty file with an empty name is put under
  the key \<^verbatim>\<open>images/1700000000000-\<close>, inserted, and answered with success.
\<close>

theorem empty_file_is_stored:
  "file_name empty_file = [] \<and> file_bytes empty_file = []
   \<and> fst (action all_succeed 1700000000000 public_base (FormDataOk (FormFile empty_file))
          empty_world) = JsonSuccess
   \<and> put_keys (trace (snd (action all_succeed 1700000000000 public_base
          (FormDataOk (FormFile empty_file)) empty_world)))
       = [ascii ''images/1700000000000-'']
   \<and> bucket (snd (action all_succeed 1700000000000 public_base
          (FormDataOk (FormFile empty_file)) empty_world)) (ascii ''images/1700000000000-'')
       = Some ([], [])
   \<and> map name (images_table (snd (action all_succeed 1700000000000 public_base
          (FormDataOk (FormFile empty_file)) empty_world))) = [[]]"
proof -
  have r: "fst (upload_body all_succeed public_base (store_key 1700000000000 [])
      empty_file empty_world) = Inr ()"
    by (simp add: upload_body_def binding_defs all_succeed_def Let_def)
  have "bucket (snd (upload_body all_succeed public_base (store_key 1700000000000 [])
         empty_file empty_world)) (store_key 1700000000000 []) = Some ([], [])"
    and "map name (images_table (snd (upload_body all_succeed public_base
         (store_key 1700000000000 []) empty_file empty_world))) = [[]]"
    by (simp_all add: upload_body_def binding_defs all_succeed_def Let_def emit_simps
        empty_file_def empty_world_def)
  moreover note r
  moreover have "file_name empty_file = []" "file_bytes empty_file = []"
    "trace empty_world = []"
    by (simp_all add: empty_file_def empty_world_def)
  ultimately show ?thesis
    using upload_body_calls(1)
      [of all_succeed public_base "store_key 1700000000000 []" empty_file empty_world]
    by (simp add: action_file_response action_file_store(3) store_key_samples)
qed

text \<open>
  Claim C3, as amended. When the form has no file under \<^verbatim>\<open>image\<close> (the field is
  missing, or is a string), reading the name throws before the key is assigned: the
  answer is an error with status 500, no put, insert or delete is made, and the bucket and
  the table are unchanged. Only two console lines are added to the world.
\<close>

theorem missing_file_has_no_side_effect:
  "action oc now base (FormDataOk FormNull) w =
     (JsonError (type_error_text oc) 500,
      w\<lparr>trace := trace w @
           [ConsoleLog (ascii ''error'') (ArgError (JsError (type_error_text oc))),
            ConsoleError (ascii ''Upload error:'') (JsError (type_error_text oc))]\<rparr>)
   \<and> action oc now base (FormDataOk (FormString s)) w =
     (JsonError (type_error_text oc) 500,
      w\<lparr>trace := trace w @
           [ConsoleLog (ascii ''error'') (ArgError (JsError (type_error_text oc))),
            ConsoleError (ascii ''Upload error:'') (JsError (type_error_text oc))]\<rparr>)
   \<and> put_keys (trace (snd (action oc now base (FormDataOk FormNull) w))) = put_keys (trace w)
   \<and> inserts (trace (snd (action oc now base (FormDataOk FormNull) w))) = inserts (trace w)
   \<and> deleted_keys (trace (snd (action oc now base (FormDataOk FormNull) w)))
       = deleted_keys (trace w)
   \<and> bucket (snd (action oc now base (FormDataOk FormNull) w)) = bucket w
   \<and> images_table (snd (action oc now base (FormDataOk FormNull) w)) = images_table w"
  by (simp add: action_no_file put_keys_append inserts_append deleted_keys_append)

theorem missing_file_has_no_side_effect_witness:
  "fst (action all_succeed 1700000000000 public_base (FormDataOk FormNull) empty_world)
     = JsonError (ascii ''Cannot read properties of null (reading name)'') 500
   \<and> put_keys (trace (snd (action all_succeed 1700000000000 public_base
        (FormDataOk FormNull) empty_world))) = []
   \<and> inserts (trace (snd (action all_succeed 1700000000000 public_base
        (FormDataOk FormNull) empty_world))) = []
   \<and> images_table (snd (action all_succeed 1700000000000 public_base
        (FormDataOk FormNull) empty_world)) = []"
  using missing_file_has_no_side_effect [of all_succeed 1700000000000 public_base empty_world]
  by (simp add: all_succeed_def empty_world_def)

text \<open>
  Claim C4 says that any failure of the description call, a malformed response among
  them, is replaced by the sentinel. The \<^verbatim>\<open>catch\<close> of lines 87 to 90 sees only what is
  thrown: when \<^verbatim>\<open>AI.run\<close> resolves with a response that has no \<^verbatim>\<open>description\<close>, line 86
  reads \<^verbatim>\<open>undefined\<close>, and the insert is bound with no description instead of the
  sentinel.
\<close>

theorem malformed_ai_response_is_not_replaced:
  "ai_outcome (all_succeed\<lparr>ai_outcome := Inr None\<rparr>) = Inr None
   \<and> inserts (trace (snd (action (all_succeed\<lparr>ai_outcome := Inr None\<rparr>) 1700000000000
        public_base (FormDataOk (FormFile cat_png)) empty_world)))
      = [(public_base @ ascii ''/'' @ ascii ''images/1700000000000-cat.png'', ascii ''cat.png'',
          None)]
   \<and> map description (images_table (snd (action (all_succeed\<lparr>ai_outcome := Inr None\<rparr>)
        1700000000000 public_base (FormDataOk (FormFile cat_png)) empty_world))) = [None]
   \<and> None \<noteq> Some sentinel"
proof -
  let ?oc = "all_succeed\<lparr>ai_outcome := Inr None\<rparr>"
  let ?key = "store_key 1700000000000 (file_name cat_png)"
  have n: "file_name cat_png = ascii ''cat.png''"
    by (simp add: cat_png_def)
  have r: "fst (upload_body ?oc public_base ?key cat_png empty_world) = Inr ()"
    by (simp add: upload_body_def binding_defs all_succeed_def Let_def)
  have s: "snd (action ?oc 1700000000000 public_base (FormDataOk (FormFile cat_png)) empty_world)
      = snd (upload_body ?oc public_base ?key cat_png empty_world)"
    by (rule action_file_store(3) [OF r])
  have "inserts (trace (snd (upload_body ?oc public_base ?key cat_png empty_world)))
      = [(public_base @ ascii ''/'' @ ?key, file_name cat_png, None)]"
    and "map description (images_table (snd (upload_body ?oc public_base ?key cat_png
          empty_world))) = [None]"
    by (simp_all add: upload_body_def binding_defs all_succeed_def Let_def emit_simps
        inserts_append empty_world_def)
  then show ?thesis
    by (simp only: s n store_key_samples) simp
qed

text \<open>
  Claim C4, as amended. When \<^verbatim>\<open>AI.run\<close> throws, for any reason, after a put and a
  read-back that succeeded, the insert is still made, with the description
  \<^verbatim>\<open>Description unavailable\<close>; when the insert succeeds the answer is success, no delete
  is made, and the new row carries that description. A call that resolves is not a
  failure, whatever it resolves with: the insert is then made with the
  \<^verbatim>\<open>description\<close> of the response as it is, which may be absent.
\<close>

theorem ai_throw_degrades_to_sentinel:
  assumes "put_outcome oc = None" and "\<not> readback_fails oc"
  shows "sentinel = ascii ''Description unavailable''
    \<and> inserts (trace (snd (action oc now base (FormDataOk (FormFile f)) w)))
        = inserts (trace w)
          @ [(base @ ascii ''/'' @ store_key now (file_name f), file_name f,
              case ai_outcome oc of Inl aiError \<Rightarrow> Some sentinel | Inr d \<Rightarrow> d)]
    \<and> (insert_outcome oc = Inr True \<longrightarrow>
          fst (action oc now base (FormDataOk (FormFile f)) w) = JsonSuccess
        \<and> deleted_keys (trace (snd (action oc now base (FormDataOk (FormFile f)) w)))
            = deleted_keys (trace w)
        \<and> images_table (snd (action oc now base (FormDataOk (FormFile f)) w))
            = images_table w
              @ [\<lparr>image_id = Suc (seq w),
                  url = base @ ascii ''/'' @ store_key now (file_name f),
                  name = file_name f,
                  description =
                    (case ai_outcome oc of Inl aiError \<Rightarrow> Some sentinel | Inr d \<Rightarrow> d),
                  created_at = current_timestamp oc\<rparr>])"
proof -
  let ?key = "store_key now (file_name f)"
  let ?ub = "upload_body oc base ?key f w"
  let ?d = "case ai_outcome oc of Inl aiError \<Rightarrow> Some sentinel | Inr d \<Rightarrow> d"
  have ins: "inserts (trace (snd ?ub))
      = inserts (trace w) @ [(base @ ascii ''/'' @ ?key, file_name f, ?d)]"
    using assms
    by (auto simp: upload_body_def binding_defs readback_fails_def emit_simps inserts_append
        Let_def split: outcome_splits)
  have "inserts (trace (snd (action oc now base (FormDataOk (FormFile f)) w)))
      = inserts (trace (snd ?ub))"
    by (simp add: action_file_trace inserts_append split: outcome_splits)
  with ins have a: "inserts (trace (snd (action oc now base (FormDataOk (FormFile f)) w)))
      = inserts (trace w) @ [(base @ ascii ''/'' @ ?key, file_name f, ?d)]"
    by simp
  have b: "fst (action oc now base (FormDataOk (FormFile f)) w) = JsonSuccess
        \<and> deleted_keys (trace (snd (action oc now base (FormDataOk (FormFile f)) w)))
            = deleted_keys (trace w)
        \<and> images_table (snd (action oc now base (FormDataOk (FormFile f)) w))
            = images_table w
              @ [\<lparr>image_id = Suc (seq w), url = base @ ascii ''/'' @ ?key,
                  name = file_name f, description = ?d,
                  created_at = current_timestamp oc\<rparr>]"
    if ok: "insert_outcome oc = Inr True"
  proof -
    have r: "fst ?ub = Inr ()"
      using assms ok
      by (auto simp: upload_body_def binding_defs readback_fails_def Let_def
          split: outcome_splits)
    have t: "images_table (snd ?ub) = images_table w
              @ [\<lparr>image_id = Suc (seq w), url = base @ ascii ''/'' @ ?key,
                  name = file_name f, description = ?d,
                  created_at = current_timestamp oc\<rparr>]"
      using assms ok
      by (auto simp: upload_body_def binding_defs readback_fails_def emit_simps Let_def
          split: outcome_splits)
    show ?thesis
      by (simp add: action_file_response r action_file_store(3) [OF r] t upload_body_calls(2))
  qed
  from a b show ?thesis
    by (simp add: sentinel_def)
qed

theorem ai_throw_degrades_to_sentinel_witness:
  "put_outcome (all_succeed\<lparr>ai_outcome := Inl JsNonError\<rparr>) = None
   \<and> \<not> readback_fails (all_succeed\<lparr>ai_outcome := Inl JsNonError\<rparr>)
   \<and> ai_outcome (all_succeed\<lparr>ai_outcome := Inl JsNonError\<rparr>) = Inl JsNonError
   \<and> insert_outcome (all_succeed\<lparr>ai_outcome := Inl JsNonError\<rparr>) = Inr True
   \<and> fst (action (all_succeed\<lparr>ai_outcome := Inl JsNonError\<rparr>) 1700000000000 public_base
        (FormDataOk (FormFile cat_png)) empty_world) = JsonSuccess
   \<and> inserts (trace (snd (action (all_succeed\<lparr>ai_outcome := Inl JsNonError\<rparr>)
        1700000000000 public_base (FormDataOk (FormFile cat_png)) empty_world)))
      = [(public_base @ ascii ''/'' @ ascii ''images/1700000000000-cat.png'', ascii ''cat.png'',
          Some (ascii ''Description unavailable''))]
   \<and> deleted_keys (trace (snd (action (all_succeed\<lparr>ai_outcome := Inl JsNonError\<rparr>)
        1700000000000 public_base (FormDataOk (FormFile cat_png)) empty_world))) = []"
proof -
  have a: "put_outcome (all_succeed\<lparr>ai_outcome := Inl JsNonError\<rparr>) = None"
    and b: "\<not> readback_fails (all_succeed\<lparr>ai_outcome := Inl JsNonError\<rparr>)"
    and c: "ai_outcome (all_succeed\<lparr>ai_outcome := Inl JsNonError\<rparr>) = Inl JsNonError"
    and d: "insert_outcome (all_succeed\<lparr>ai_outcome := Inl JsNonError\<rparr>) = Inr True"
    by (simp_all add: all_succeed_def readback_fails_def)
  have w: "trace empty_world = []" "file_name cat_png = ascii ''cat.png''"
    by (simp_all add: empty_world_def cat_png_def)
  from ai_throw_degrades_to_sentinel
    [OF a b, of 1700000000000 public_base cat_png empty_world]
  show ?thesis
    using a b c d w by (simp add: store_key_samples)
qed

text \<open>
  Claim C5. An insert that resolves with \<^verbatim>\<open>success = false\<close> has the outcome of an insert
  that throws an \<^verbatim>\<open>Error\<close> with the message of line 100: the same answer and the same
  world. The key is deleted once, the table is unchanged, and the answer is that message
  with status 500.
\<close>

theorem soft_insert_failure_is_hard_failure:
  assumes "put_outcome oc = None" and "\<not> readback_fails oc" and "insert_outcome oc = Inr False"
  shows "action oc now base (FormDataOk (FormFile f)) w
        = action (oc\<lparr>insert_outcome :=
            Inl (JsError (ascii ''Failed to save image details to database''))\<rparr>)
            now base (FormDataOk (FormFile f)) w
    \<and> fst (action oc now base (FormDataOk (FormFile f)) w)
        = JsonError (ascii ''Failed to save image details to database'') 500
    \<and> deleted_keys (trace (snd (action oc now base (FormDataOk (FormFile f)) w)))
        = deleted_keys (trace w) @ [store_key now (file_name f)]
    \<and> images_table (snd (action oc now base (FormDataOk (FormFile f)) w)) = images_table w"
proof -
  let ?key = "store_key now (file_name f)"
  let ?hard = "oc\<lparr>insert_outcome :=
      Inl (JsError (ascii ''Failed to save image details to database''))\<rparr>"
  note ub = upload_body_soft_insert_failure [OF assms, of base ?key f w]
  have "r2_delete ?hard = r2_delete oc"
    by (simp add: r2_delete_def fun_eq_iff)
  then have "rollback ?hard k e w' = rollback oc k e w'" for k e w'
    by (simp only: rollback_def)
  then have "action oc now base (FormDataOk (FormFile f)) w
      = action ?hard now base (FormDataOk (FormFile f)) w"
    by (simp add: action_file ub(1) [symmetric] split: outcome_splits)
  moreover have "deleted_keys (trace (snd (action oc now base (FormDataOk (FormFile f)) w)))
      = deleted_keys (trace w) @ [?key]"
    by (simp add: action_file_trace ub(2) deleted_keys_append upload_body_calls(2)
        split: option.splits)
  moreover have "fst (action oc now base (FormDataOk (FormFile f)) w)
      = JsonError (ascii ''Failed to save image details to database'') 500"
    by (simp add: action_file_response ub(2))
  moreover have "images_table (snd (action oc now base (FormDataOk (FormFile f)) w))
      = images_table w"
    by (rule action_file_store(2) [OF ub(2)])
  ultimately show ?thesis
    by blast
qed

theorem soft_insert_failure_is_hard_failure_witness:
  "put_outcome (all_succeed\<lparr>insert_outcome := Inr False\<rparr>) = None
   \<and> \<not> readback_fails (all_succeed\<lparr>insert_outcome := Inr False\<rparr>)
   \<and> insert_outcome (all_succeed\<lparr>insert_outcome := Inr False\<rparr>) = Inr False
   \<and> fst (action (all_succeed\<lparr>insert_outcome := Inr False\<rparr>) 1700000000000 public_base
        (FormDataOk (FormFile cat_png)) empty_world)
      = JsonError (ascii ''Failed to save image details to database'') 500
   \<and> deleted_keys (trace (snd (action (all_succeed\<lparr>insert_outcome := Inr False\<rparr>)
        1700000000000 public_base (FormDataOk (FormFile cat_png)) empty_world)))
      = [ascii ''images/1700000000000-cat.png'']"
proof -
  have a: "put_outcome (all_succeed\<lparr>insert_outcome := Inr False\<rparr>) = None"
    and b: "\<not> readback_fails (all_succeed\<lparr>insert_outcome := Inr False\<rparr>)"
    and c: "insert_outcome (all_succeed\<lparr>insert_outcome := Inr False\<rparr>) = Inr False"
    by (simp_all add: all_succeed_def readback_fails_def)
  have w: "trace empty_world = []" "file_name cat_png = ascii ''cat.png''"
    by (simp_all add: empty_world_def cat_png_def)
  note th = soft_insert_failure_is_hard_failure
    [OF a b c, of 1700000000000 public_base cat_png empty_world]
  from th have r: "fst (action (all_succeed\<lparr>insert_outcome := Inr False\<rparr>) 1700000000000
      public_base (FormDataOk (FormFile cat_png)) empty_world)
      = JsonError (ascii ''Failed to save image details to database'') 500"
    by blast
  from th have "deleted_keys (trace (snd (action (all_succeed\<lparr>insert_outcome := Inr False\<rparr>)
        1700000000000 public_base (FormDataOk (FormFile cat_png)) empty_world)))
      = deleted_keys (trace empty_world) @ [store_key 1700000000000 (file_name cat_png)]"
    by blast
  then have d: "deleted_keys (trace (snd (action (all_succeed\<lparr>insert_outcome := Inr False\<rparr>)
        1700000000000 public_base (FormDataOk (FormFile cat_png)) empty_world)))
      = [ascii ''images/1700000000000-cat.png'']"
    by (simp add: w store_key_samples)
  from a b c r d show ?thesis
    by blast
qed

text \<open>
  Claim C6. When the delete of the rollback throws, its error goes to \<^verbatim>\<open>console.error\<close>
  and nowhere else: the answer carries the message of the failure that started the
  rollback, and is the answer of the same request with a delete that resolves.
\<close>

theorem delete_failure_is_swallowed:
  assumes "delete_outcome oc = Some deleteError"
    and "fst (upload_body oc base (store_key now (file_name f)) f w) = Inl e"
  shows "fst (action oc now base (FormDataOk (FormFile f)) w)
        = JsonError (error_message e (ascii ''An unexpected error occurred'')) 500
    \<and> fst (action oc now base (FormDataOk (FormFile f)) w)
        = fst (action (oc\<lparr>delete_outcome := None\<rparr>) now base (FormDataOk (FormFile f)) w)
    \<and> trace (snd (action oc now base (FormDataOk (FormFile f)) w))
        = trace (snd (upload_body oc base (store_key now (file_name f)) f w))
          @ [ConsoleLog (ascii ''error'') (ArgError e),
             R2Delete (store_key now (file_name f)),
             ConsoleError (ascii ''Failed to delete image after error:'') deleteError,
             ConsoleError (ascii ''Upload error:'') e]"
proof -
  have "upload_body (oc\<lparr>delete_outcome := None\<rparr>) = upload_body oc"
    by (rule upload_body_cong) simp_all
  then show ?thesis
    by (simp add: action_file_response action_file_trace assms)
qed

theorem delete_failure_is_swallowed_witness:
  "delete_outcome (all_succeed\<lparr>insert_outcome := Inl (JsError (ascii ''D1 down'')),
        delete_outcome := Some (JsError (ascii ''R2 down''))\<rparr>)
      = Some (JsError (ascii ''R2 down''))
   \<and> fst (upload_body (all_succeed\<lparr>insert_outcome := Inl (JsError (ascii ''D1 down'')),
        delete_outcome := Some (JsError (ascii ''R2 down''))\<rparr>) public_base
        (store_key 1700000000000 (file_name cat_png)) cat_png empty_world)
      = Inl (JsError (ascii ''D1 down''))
   \<and> fst (action (all_succeed\<lparr>insert_outcome := Inl (JsError (ascii ''D1 down'')),
        delete_outcome := Some (JsError (ascii ''R2 down''))\<rparr>) 1700000000000 public_base
        (FormDataOk (FormFile cat_png)) empty_world)
      = JsonError (ascii ''D1 down'') 500"
proof -
  let ?oc = "all_succeed\<lparr>insert_outcome := Inl (JsError (ascii ''D1 down'')),
        delete_outcome := Some (JsError (ascii ''R2 down''))\<rparr>"
  have a: "delete_outcome ?oc = Some (JsError (ascii ''R2 down''))"
    by simp
  have b: "fst (upload_body ?oc public_base (store_key 1700000000000 (file_name cat_png))
      cat_png empty_world) = Inl (JsError (ascii ''D1 down''))"
    by (simp add: upload_body_def binding_defs all_succeed_def Let_def)
  from delete_failure_is_swallowed [OF a b] a b
  show ?thesis
    by simp
qed



text \<open>
  Claim C10. A run of white space of any kind and length becomes one hyphen: when the run
  is maximal (no white space touches it on either side) the result is the replaced text
  before it, one hyphen, and the replaced text after it. So two names that differ only in
  what one run is made of have the same replaced text and, at one timestamp, the same key.
\<close>

theorem whitespace_runs_collapse:
  assumes "ws1 \<noteq> []" and "\<forall>c\<in>set ws1. is_space c"
    and "ws2 \<noteq> []" and "\<forall>c\<in>set ws2. is_space c"
  shows "replace_ws (xs @ ws1 @ ys) = replace_ws (xs @ ws2 @ ys)
    \<and> store_key now (xs @ ws1 @ ys) = store_key now (xs @ ws2 @ ys)
    \<and> ((xs = [] \<or> \<not> is_space (last xs)) \<and> (ys = [] \<or> \<not> is_space (hd ys))
         \<longrightarrow> replace_ws (xs @ ws1 @ ys) = replace_ws xs @ [hyphen] @ replace_ws ys)"
  using replace_ws_run_any [OF assms] store_key_same_run [OF assms]
    replace_ws_run [OF assms(1,2)]
  by blast

theorem whitespace_runs_collapse_witness:
  "ascii ''my cat.png'' \<noteq> ascii ''my'' @ [0x09, 0x20, 0x0A] @ ascii ''cat.png''
   \<and> replace_ws (ascii ''my'' @ [0x09, 0x20, 0x0A] @ ascii ''cat.png'') = ascii ''my-cat.png''
   \<and> store_key 1700000000000 (ascii ''my'' @ [0x09, 0x20, 0x0A] @ ascii ''cat.png'')
       = store_key 1700000000000 (ascii ''my'' @ [0x20] @ ascii ''cat.png'')"
proof -
  have a: "[0x20] \<noteq> ([] :: jsstring)" and b: "\<forall>c\<in>set [0x20]. is_space c"
    and c: "[0x09, 0x20, 0x0A] \<noteq> ([] :: jsstring)"
    and d: "\<forall>c\<in>set [0x09, 0x20, 0x0A]. is_space c"
    by (simp_all add: is_space_def)
  have e: "ascii ''my'' = [] \<or> \<not> is_space (last (ascii ''my''))"
    and f: "ascii ''cat.png'' = [] \<or> \<not> is_space (hd (ascii ''cat.png''))"
    by (simp_all add: ascii_def is_space_def)
  have g: "replace_ws (ascii ''my'') = ascii ''my''"
    and h: "replace_ws (ascii ''cat.png'') = ascii ''cat.png''"
    by (simp_all add: ascii_def is_space_def)
  have i: "ascii ''my'' @ [hyphen] @ ascii ''cat.png'' = ascii ''my-cat.png''"
    by (simp add: ascii_def hyphen_def)
  have j: "ascii ''my cat.png'' \<noteq> ascii ''my'' @ [0x09, 0x20, 0x0A] @ ascii ''cat.png''"
    by (simp add: ascii_def)
  note th = whitespace_runs_collapse
    [OF c d a b, of "ascii ''my''" "ascii ''cat.png''" 1700000000000]
  from th have k: "store_key 1700000000000 (ascii ''my'' @ [0x09, 0x20, 0x0A] @ ascii ''cat.png'')
       = store_key 1700000000000 (ascii ''my'' @ [0x20] @ ascii ''cat.png'')"
    by blast
  from th e f have "replace_ws (ascii ''my'' @ [0x09, 0x20, 0x0A] @ ascii ''cat.png'')
      = replace_ws (ascii ''my'') @ [hyphen] @ replace_ws (ascii ''cat.png'')"
    by blast
  then have l: "replace_ws (ascii ''my'' @ [0x09, 0x20, 0x0A] @ ascii ''cat.png'')
      = ascii ''my-cat.png''"
    by (simp only: g h i)
  from j k l show ?thesis
    by blast
qed

subsection \<open>The loader\<close>

text \<open>
  Claim C8. When the read succeeds, the loader returns every row of the table, each once,
  with \<^verbatim>\<open>created_at\<close> never increasing along the list. If the rows were inserted with
  strictly increasing \<^verbatim>\<open>created_at\<close>, the list is the table reversed, and \<^verbatim>\<open>created_at\<close>
  strictly decreases along it.
\<close>

theorem loader_lists_newest_first:
  assumes "select_outcome oc = None"
  shows "status (fst (loader oc w)) = StatusSuccess
    \<and> mset (images (fst (loader oc w))) = mset (images_table w)
    \<and> sorted_wrt (\<lambda>a b. created_at b \<le> created_at a) (images (fst (loader oc w)))
    \<and> (sorted_wrt (<) (map created_at (images_table w)) \<longrightarrow>
          images (fst (loader oc w)) = rev (images_table w)
        \<and> sorted_wrt (\<lambda>a b. created_at b < created_at a) (images (fst (loader oc w))))"
proof -
  have l: "images (fst (loader oc w)) = order_by_created_at_desc (images_table w)"
    and s: "status (fst (loader oc w)) = StatusSuccess"
    using assms by (simp_all add: loader_def db_select_all_def emit_simps)
  have "sorted_wrt (\<lambda>a b. created_at b < created_at a) (rev (images_table w))"
    if "sorted_wrt (<) (map created_at (images_table w))"
    using that by (simp add: sorted_wrt_rev sorted_wrt_map)
  then show ?thesis
    by (simp add: l s order_by_created_at_desc_props)
qed

theorem loader_lists_newest_first_witness:
  "select_outcome all_succeed = None
   \<and> sorted_wrt (<) (map created_at (images_table (empty_world\<lparr>images_table := sample_rows\<rparr>)))
   \<and> map created_at (images (fst (loader all_succeed
         (empty_world\<lparr>images_table := sample_rows\<rparr>))))
      = [ascii ''2024-01-02 00:00:00'', ascii ''2024-01-01 10:00:00'',
         ascii ''2024-01-01 09:59:59'']"
proof -
  have a: "select_outcome all_succeed = None"
    by (simp add: all_succeed_def)
  have b: "sorted_wrt (<) (map created_at (images_table (empty_world\<lparr>images_table := sample_rows\<rparr>)))"
    by (simp add: sample_rows_def) (simp add: ascii_def)
  from loader_lists_newest_first [OF a, of "empty_world\<lparr>images_table := sample_rows\<rparr>"] b
  have "images (fst (loader all_succeed (empty_world\<lparr>images_table := sample_rows\<rparr>)))
      = rev (images_table (empty_world\<lparr>images_table := sample_rows\<rparr>))"
    by blast
  then have "map created_at (images (fst (loader all_succeed
         (empty_world\<lparr>images_table := sample_rows\<rparr>))))
      = [ascii ''2024-01-02 00:00:00'', ascii ''2024-01-01 10:00:00'',
         ascii ''2024-01-01 09:59:59'']"
    by (simp add: sample_rows_def)
  with a b show ?thesis
    by blast
qed

text \<open>
  Claim C9. When the read throws, the loader still returns data: the status
  \<^verbatim>\<open>error\<close>, an empty list of images, and a message, which is the error's message or
  \<^verbatim>\<open>Failed to load images\<close>. The error goes to \<^verbatim>\<open>console.error\<close>.
\<close>

theorem loader_degrades_on_read_failure:
  assumes "select_outcome oc = Some e"
  shows "fst (loader oc w)
        = \<lparr>status = StatusError, images = [],
           message = Some (error_message e (ascii ''Failed to load images''))\<rparr>
    \<and> snd (loader oc w)
        = w\<lparr>trace := trace w @ [DbSelectAll, ConsoleError (ascii ''Failed to load images:'') e]\<rparr>"
  using assms by (simp add: loader_def db_select_all_def emit_def)

theorem loader_degrades_on_read_failure_witness:
  "select_outcome (all_succeed\<lparr>select_outcome := Some (JsError (ascii ''D1_ERROR''))\<rparr>)
      = Some (JsError (ascii ''D1_ERROR''))
   \<and> fst (loader (all_succeed\<lparr>select_outcome := Some (JsError (ascii ''D1_ERROR''))\<rparr>)
        (empty_world\<lparr>images_table := sample_rows\<rparr>))
      = \<lparr>status = StatusError, images = [], message = Some (ascii ''D1_ERROR'')\<rparr>"
proof -
  have a: "select_outcome (all_succeed\<lparr>select_outcome := Some (JsError (ascii ''D1_ERROR''))\<rparr>)
      = Some (JsError (ascii ''D1_ERROR''))"
    by simp
  from loader_degrades_on_read_failure [OF a, of "empty_world\<lparr>images_table := sample_rows\<rparr>"] a
  show ?thesis
    by simp
qed

end
